theory Spec2Isabelle
  imports Complex_Main
begin

section \<open>JavaScript values\<close>

text \<open>
  The request handlers of the storefront work on untyped JSON: the parsed request body, the
  parsed webhook event and every column written to the store. A JSON value is modelled by
  \<open>jsval\<close>; \<open>JUndefined\<close> is what reading a property that is not there gives. Numbers are
  exact rationals (every finite double is one); the handlers never do arithmetic on them.
  An object is an association list, read with \<open>map_of\<close>.
\<close>

datatype jsval =
    JUndefined
  | JNull
  | JBool bool
  | JNum rat
  | JStr string
  | JArr "jsval list"
  | JObj "(string \<times> jsval) list"

text \<open>Truthiness, as tested by \<open>!x\<close>, \<open>x || y\<close> and \<open>if (x)\<close>.\<close>

fun truthy :: "jsval \<Rightarrow> bool" where
  "truthy JUndefined = False"
| "truthy JNull = False"
| "truthy (JBool b) = b"
| "truthy (JNum n) = (n \<noteq> 0)"
| "truthy (JStr s) = (s \<noteq> [])"
| "truthy (JArr xs) = True"
| "truthy (JObj kvs) = True"

text \<open>\<open>a || b\<close>\<close>

definition js_or :: "jsval \<Rightarrow> jsval \<Rightarrow> jsval" where
  "js_or a b = (if truthy a then a else b)"

text \<open>
  Reading a property \<open>v.k\<close>. On \<open>null\<close> and \<open>undefined\<close> it throws a TypeError, which is
  \<open>None\<close>; on every other value it gives the member, or \<open>undefined\<close>. (The property names the
  handlers read are never built-in members of strings, numbers or arrays.)
\<close>

fun get_prop :: "jsval \<Rightarrow> string \<Rightarrow> jsval option" where
  "get_prop JUndefined k = None"
| "get_prop JNull k = None"
| "get_prop (JObj kvs) k = Some (case map_of kvs k of None \<Rightarrow> JUndefined | Some v \<Rightarrow> v)"
| "get_prop v k = Some JUndefined"

text \<open>Optional chaining \<open>v?.k\<close>: \<open>undefined\<close> where \<open>v\<close> is \<open>null\<close> or \<open>undefined\<close>.\<close>

definition opt_chain :: "jsval \<Rightarrow> string \<Rightarrow> jsval" where
  "opt_chain v k = (case get_prop v k of None \<Rightarrow> JUndefined | Some x \<Rightarrow> x)"

subsection \<open>Strings\<close>

definition upper_char :: "char \<Rightarrow> char" where
  "upper_char c =
     (case map_of (zip ''abcdefghijklmnopqrstuvwxyz'' ''ABCDEFGHIJKLMNOPQRSTUVWXYZ'') c of
        None \<Rightarrow> c
      | Some u \<Rightarrow> u)"

definition toUpperCase :: "string \<Rightarrow> string" where
  "toUpperCase s = map upper_char s"

text \<open>\<open>s.substr(start, len)\<close> and \<open>s.slice(0, n)\<close> for the non-negative arguments used.\<close>

definition substr :: "string \<Rightarrow> nat \<Rightarrow> nat \<Rightarrow> string" where
  "substr s start len = take len (drop start s)"

definition slice0 :: "string \<Rightarrow> nat \<Rightarrow> string" where
  "slice0 s n = take n s"

text \<open>\<open>s.replace(/-/g, '')\<close>\<close>

definition remove_dashes :: "string \<Rightarrow> string" where
  "remove_dashes s = filter (\<lambda>c. c \<noteq> CHR ''-'') s"

text \<open>A non-negative integer inside a template literal: its decimal digits.\<close>

fun decimal :: "nat \<Rightarrow> string" where
  "decimal n =
     (if n < 10 then [''0123456789'' ! n]
      else decimal (n div 10) @ [''0123456789'' ! (n mod 10)])"

fun starts_with :: "string \<Rightarrow> string \<Rightarrow> bool" where
  "starts_with s [] = True"
| "starts_with [] (p # ps) = False"
| "starts_with (c # cs) (p # ps) = (c = p \<and> starts_with cs ps)"

text \<open>\<open>s.includes(p)\<close>\<close>

fun str_includes :: "string \<Rightarrow> string \<Rightarrow> bool" where
  "str_includes [] p = (p = [])"
| "str_includes (c # cs) p = (starts_with (c # cs) p \<or> str_includes cs p)"

definition base36_upper :: "char \<Rightarrow> bool" where
  "base36_upper c = (c \<in> set ''0123456789ABCDEFGHIJKLMNOPQRSTUVWXYZ'')"

section \<open>The store\<close>

text \<open>
  The hosted relational store, as far as the handlers read and write it: five tables, one
  record per row. A column keeps the JSON value that was written to it, and an \<open>eq\<close> filter
  is equality of values. The tables are lists, in insertion order.
\<close>

record user_row =
  user_id :: nat
  user_whatsapp_id :: jsval
  user_phone :: jsval
  user_name :: jsval
  user_email :: jsval

record car_row =
  car_pk :: nat
  car_catalog_id :: jsval
  car_status :: string

record booking_row =
  booking_id :: nat
  booking_order_id :: string
  booking_user_id :: nat
  booking_car_id :: nat
  booking_pickup_date :: jsval
  booking_return_date :: jsval
  booking_pickup_location :: jsval
  booking_days :: jsval
  booking_daily_rate :: jsval
  booking_total_amount :: jsval
  booking_deposit_amount :: jsval
  booking_balance_amount :: jsval
  booking_status :: string
  booking_payment_status :: string
  booking_payment_reference :: string

record payment_row =
  payment_order_id :: string
  payment_reference :: string
  payment_amount :: jsval
  payment_currency :: string
  payment_status :: string
  payment_provider :: string
  payment_provider_reference :: string
  payment_paid_at :: string
  payment_metadata :: jsval

record session_row =
  session_whatsapp_id :: jsval
  session_state :: string
  session_data :: jsval
  session_last_message_at :: string

record db =
  users :: "user_row list"
  cars :: "car_row list"
  bookings :: "booking_row list"
  payments :: "payment_row list"
  sessions :: "session_row list"

text \<open>
  A statement sent to the store comes back as \<open>{data, error}\<close> and never throws. The store
  may fail any statement: the outcome of each call site is given by the environment, as the
  error the client reports there, if any. A failed statement reads nothing and writes
  nothing.
\<close>

record pg_error =
  err_code :: string
  err_message :: "string option"

text \<open>\<open>.maybeSingle()\<close> and \<open>.single()\<close>: the row when exactly one matches, else no data.\<close>

definition maybeSingle :: "'a list \<Rightarrow> 'a option" where
  "maybeSingle rows = (case rows of [r] \<Rightarrow> Some r | _ \<Rightarrow> None)"

definition single :: "'a list \<Rightarrow> 'a option" where
  "single rows = (case rows of [r] \<Rightarrow> Some r | _ \<Rightarrow> None)"

text \<open>A key left \<open>undefined\<close> in an update object is not sent: the column keeps its value.\<close>

definition patch :: "jsval \<Rightarrow> jsval \<Rightarrow> jsval" where
  "patch new old = (if new = JUndefined then old else new)"

definition fresh_id :: "nat list \<Rightarrow> nat" where
  "fresh_id ids = Suc (fold max ids 0)"

section \<open>Responses\<close>

datatype response = Response (status: nat) (payload: jsval)

definition error_response :: "string \<Rightarrow> nat \<Rightarrow> response" where
  "error_response msg code = Response code (JObj [(''error'', JStr msg)])"

section \<open>Booking Creation Handler\<close>

text \<open>\<open>src/app/api/booking/create/route.ts\<close>\<close>

text \<open>The fields destructured from the parsed body; a key that is absent is \<open>undefined\<close>.\<close>

record fields =
  car_id :: jsval
  pickup_date :: jsval
  return_date :: jsval
  full_name :: jsval
  phone_number :: jsval
  email :: jsval
  pickup_location :: jsval
  days :: jsval
  daily_rate :: jsval
  total_amount :: jsval
  sessionId :: jsval

text \<open>Destructuring throws on \<open>null\<close> (a body that is the JSON text \<open>null\<close>).\<close>

definition destructure :: "jsval \<Rightarrow> fields option" where
  "destructure body =
     (if body = JNull \<or> body = JUndefined then None
      else Some \<lparr>
        car_id = opt_chain body ''car_id'',
        pickup_date = opt_chain body ''pickup_date'',
        return_date = opt_chain body ''return_date'',
        full_name = opt_chain body ''full_name'',
        phone_number = opt_chain body ''phone_number'',
        email = opt_chain body ''email'',
        pickup_location = opt_chain body ''pickup_location'',
        days = opt_chain body ''days'',
        daily_rate = opt_chain body ''daily_rate'',
        total_amount = opt_chain body ''total_amount'',
        sessionId = opt_chain body ''sessionId'' \<rparr>)"

text \<open>The statements the handler sends to the store, in source order.\<close>

datatype call_site =
    LookupUserByWhatsapp
  | UpdateUserByWhatsapp
  | LookupUserByPhone
  | AdoptUserByPhone
  | InsertUser
  | RereadUser
  | LookupCar
  | InsertBooking
  | InsertPayment
  | UpdateSession

text \<open>
  What the handler takes from outside the request: the outcome of each statement, the
  clock and the random generator. \<open>order_clock_iso\<close> is \<open>new Date().toISOString()\<close> at the
  order id, \<open>pay_clock_ms\<close> is \<open>Date.now()\<close> at the payment reference, and the two
  \<open>random36\<close> fields are \<open>Math.random().toString(36)\<close> at each of them: the text \<open>0\<close>, or
  \<open>0.\<close> followed by the base-36 digits of the number drawn.
\<close>

record env =
  store_error :: "call_site \<Rightarrow> pg_error option"
  order_clock_iso :: string
  order_random36 :: string
  pay_clock_ms :: nat
  pay_random36 :: string
  paid_at_iso :: string
  session_clock_iso :: string

definition missing_required :: "fields \<Rightarrow> bool" where
  "missing_required f =
     (\<not> truthy (car_id f) \<or> \<not> truthy (pickup_date f) \<or> \<not> truthy (return_date f) \<or>
      \<not> truthy (full_name f) \<or> \<not> truthy (phone_number f) \<or> \<not> truthy (pickup_location f))"

text \<open>\<open>const whatsappId = sessionId || phone_number\<close>\<close>

definition whatsappId :: "fields \<Rightarrow> jsval" where
  "whatsappId f = js_or (sessionId f) (phone_number f)"

text \<open>\<open>.from('users').select('id').eq(column, v).maybeSingle()\<close> at a call site.\<close>

definition select_user :: "env \<Rightarrow> call_site \<Rightarrow> (user_row \<Rightarrow> jsval) \<Rightarrow> jsval \<Rightarrow> db \<Rightarrow> user_row option" where
  "select_user e site column v d =
     (case store_error e site of
        Some err \<Rightarrow> None
      | None \<Rightarrow> maybeSingle (filter (\<lambda>u. column u = v) (users d)))"

text \<open>\<open>.from('users').update(obj).eq('id', uid)\<close> at a call site.\<close>

definition update_user :: "env \<Rightarrow> call_site \<Rightarrow> (user_row \<Rightarrow> user_row) \<Rightarrow> nat \<Rightarrow> db \<Rightarrow> db" where
  "update_user e site upd uid d =
     (case store_error e site of
        Some err \<Rightarrow> d
      | None \<Rightarrow> d\<lparr>users := map (\<lambda>u. if user_id u = uid then upd u else u) (users d)\<rparr>)"

text \<open>\<open>.from('users').insert(row).select('id').single()\<close>: the error and the row created.\<close>

definition insert_user :: "env \<Rightarrow> fields \<Rightarrow> db \<Rightarrow> pg_error option \<times> user_row option \<times> db" where
  "insert_user e f d =
     (case store_error e InsertUser of
        Some err \<Rightarrow> (Some err, None, d)
      | None \<Rightarrow>
          let row = \<lparr> user_id = fresh_id (map user_id (users d)),
                      user_whatsapp_id = whatsappId f,
                      user_phone = phone_number f,
                      user_name = full_name f,
                      user_email = js_or (email f) JNull \<rparr>
          in (None, Some row, d\<lparr>users := users d @ [row]\<rparr>))"

definition show_message :: "string option \<Rightarrow> string" where
  "show_message m = (case m of None \<Rightarrow> ''undefined'' | Some s \<Rightarrow> s)"

definition is_duplicate :: "pg_error \<Rightarrow> bool" where
  "is_duplicate err =
     (err_code err = ''23505'' \<or>
      (case err_message err of None \<Rightarrow> False | Some m \<Rightarrow> str_includes m ''duplicate''))"

text \<open>
  Find or create the user (lines 29 to 120): the id resolved, or the response the handler
  returns at once, and the store afterwards.
\<close>

definition resolve_user :: "env \<Rightarrow> fields \<Rightarrow> db \<Rightarrow> (response + nat) \<times> db" where
  "resolve_user e f d =
     (case select_user e LookupUserByWhatsapp user_whatsapp_id (whatsappId f) d of
        Some existingUserByWhatsapp \<Rightarrow>
          let userId = user_id existingUserByWhatsapp in
          if truthy (full_name f) \<or> truthy (email f) \<or> truthy (phone_number f)
          then (Inr userId,
                update_user e UpdateUserByWhatsapp
                  (\<lambda>u. u\<lparr> user_name := patch (js_or (full_name f) JUndefined) (user_name u),
                          user_email := patch (js_or (email f) JUndefined) (user_email u),
                          user_phone := patch (js_or (phone_number f) JUndefined) (user_phone u) \<rparr>)
                  userId d)
          else (Inr userId, d)
      | None \<Rightarrow>
          (case select_user e LookupUserByPhone user_phone (phone_number f) d of
             Some existingUserByPhone \<Rightarrow>
               let userId = user_id existingUserByPhone in
               (Inr userId,
                update_user e AdoptUserByPhone
                  (\<lambda>u. u\<lparr> user_name := patch (js_or (full_name f) JUndefined) (user_name u),
                          user_email := patch (js_or (email f) JUndefined) (user_email u),
                          user_whatsapp_id := patch (whatsappId f) (user_whatsapp_id u) \<rparr>)
                  userId d)
           | None \<Rightarrow>
               (case insert_user e f d of
                  (Some userError, newUser, d') \<Rightarrow>
                    if is_duplicate userError
                    then (case select_user e RereadUser user_whatsapp_id (whatsappId f) d' of
                            Some existingUser \<Rightarrow> (Inr (user_id existingUser), d')
                          | None \<Rightarrow>
                              (Inl (error_response
                                 (''Failed to create user: '' @ show_message (err_message userError)) 500), d'))
                    else (Inl (error_response
                            (''Failed to create user: '' @ show_message (err_message userError)) 500), d')
                | (None, None, d') \<Rightarrow>
                    (Inl (error_response ''Failed to create user: No user data returned'' 500), d')
                | (None, Some newUser, d') \<Rightarrow> (Inr (user_id newUser), d'))))"

text \<open>\<open>.from('cars').select('id').eq('car_id', car_id).single()\<close>\<close>

definition select_car :: "env \<Rightarrow> jsval \<Rightarrow> db \<Rightarrow> car_row option" where
  "select_car e cid d =
     (case store_error e LookupCar of
        Some err \<Rightarrow> None
      | None \<Rightarrow> single (filter (\<lambda>c. car_catalog_id c = cid) (cars d)))"

definition gen_order_id :: "env \<Rightarrow> string" where
  "gen_order_id e =
     ''ORD-'' @ remove_dashes (slice0 (order_clock_iso e) 10) @ ''-'' @
     toUpperCase (substr (order_random36 e) 2 6)"

definition gen_payment_reference :: "env \<Rightarrow> string" where
  "gen_payment_reference e =
     ''PAY-'' @ decimal (pay_clock_ms e) @ ''-'' @ toUpperCase (substr (pay_random36 e) 2 9)"

text \<open>\<open>.from('bookings').insert(row).select().single()\<close>\<close>

definition insert_booking ::
  "env \<Rightarrow> fields \<Rightarrow> string \<Rightarrow> string \<Rightarrow> nat \<Rightarrow> car_row \<Rightarrow> db \<Rightarrow> pg_error option \<times> booking_row option \<times> db" where
  "insert_booking e f orderId paymentReference userId carData d =
     (case store_error e InsertBooking of
        Some err \<Rightarrow> (Some err, None, d)
      | None \<Rightarrow>
          let row = \<lparr> booking_id = fresh_id (map booking_id (bookings d)),
                      booking_order_id = orderId,
                      booking_user_id = userId,
                      booking_car_id = car_pk carData,
                      booking_pickup_date = pickup_date f,
                      booking_return_date = return_date f,
                      booking_pickup_location = pickup_location f,
                      booking_days = days f,
                      booking_daily_rate = daily_rate f,
                      booking_total_amount = total_amount f,
                      booking_deposit_amount = total_amount f,
                      booking_balance_amount = JNum 0,
                      booking_status = ''paid'',
                      booking_payment_status = ''paid'',
                      booking_payment_reference = paymentReference \<rparr>
          in (None, Some row, d\<lparr>bookings := bookings d @ [row]\<rparr>))"

text \<open>\<open>.from('payments').insert(row)\<close>\<close>

definition insert_payment :: "env \<Rightarrow> fields \<Rightarrow> string \<Rightarrow> string \<Rightarrow> db \<Rightarrow> pg_error option \<times> db" where
  "insert_payment e f orderId paymentReference d =
     (case store_error e InsertPayment of
        Some err \<Rightarrow> (Some err, d)
      | None \<Rightarrow>
          let row = \<lparr> payment_order_id = orderId,
                      payment_reference = paymentReference,
                      payment_amount = total_amount f,
                      payment_currency = ''GHS'',
                      payment_status = ''success'',
                      payment_provider = ''manual'',
                      payment_provider_reference = paymentReference,
                      payment_paid_at = paid_at_iso e,
                      payment_metadata = JObj [(''sessionId'', js_or (sessionId f) JNull)] \<rparr>
          in (None, d\<lparr>payments := payments d @ [row]\<rparr>))"

text \<open>\<open>.from('sessions').update(obj).eq('whatsapp_id', sessionId)\<close>\<close>

definition book_session :: "env \<Rightarrow> jsval \<Rightarrow> string \<Rightarrow> string \<Rightarrow> nat \<Rightarrow> db \<Rightarrow> db" where
  "book_session e sid orderId paymentReference bid d =
     (case store_error e UpdateSession of
        Some err \<Rightarrow> d
      | None \<Rightarrow>
          d\<lparr>sessions :=
              map (\<lambda>s. if session_whatsapp_id s = sid
                       then s\<lparr> session_state := ''BOOKED'',
                               session_data := JObj [(''booking_completed'', JBool True),
                                                     (''payment_reference'', JStr paymentReference),
                                                     (''order_id'', JStr orderId),
                                                     (''booking_id'', JNum (of_nat bid))],
                               session_last_message_at := session_clock_iso e \<rparr>
                       else s) (sessions d)\<rparr>)"

definition success_response :: "nat \<Rightarrow> string \<Rightarrow> string \<Rightarrow> response" where
  "success_response bid orderId paymentReference =
     Response 200 (JObj [(''success'', JBool True),
                         (''booking_id'', JNum (of_nat bid)),
                         (''order_id'', JStr orderId),
                         (''payment_reference'', JStr paymentReference)])"

text \<open>
  The handler. The request is the outcome of \<open>request.json()\<close>: the parsed body, or \<open>None\<close>
  when the body is not JSON, which throws into the \<open>catch\<close> as the failed destructuring does.
  It returns the response and the store afterwards.
\<close>

definition POST_booking_create :: "env \<Rightarrow> db \<Rightarrow> jsval option \<Rightarrow> response \<times> db" where
  "POST_booking_create e d request_json =
     (case request_json of
        None \<Rightarrow> (error_response ''Internal server error'' 500, d)
      | Some body \<Rightarrow>
     (case destructure body of
        None \<Rightarrow> (error_response ''Internal server error'' 500, d)
      | Some f \<Rightarrow>
          if missing_required f then (error_response ''Missing required fields'' 400, d)
          else
            (case resolve_user e f d of
               (Inl resp, d1) \<Rightarrow> (resp, d1)
             | (Inr userId, d1) \<Rightarrow>
                 (case select_car e (car_id f) d1 of
                    None \<Rightarrow> (error_response ''Car not found'' 404, d1)
                  | Some carData \<Rightarrow>
                      let orderId = gen_order_id e;
                          paymentReference = gen_payment_reference e
                      in (case insert_booking e f orderId paymentReference userId carData d1 of
                            (Some bookingError, booking, d2) \<Rightarrow>
                              (error_response ''Failed to create booking'' 500, d2)
                          | (None, None, d2) \<Rightarrow>
                              (error_response ''Failed to create booking'' 500, d2)
                          | (None, Some booking, d2) \<Rightarrow>
                              (case insert_payment e f orderId paymentReference d2 of
                                 (paymentError, d3) \<Rightarrow>
                                   let d4 = (if truthy (sessionId f)
                                             then book_session e (sessionId f) orderId paymentReference
                                                    (booking_id booking) d3
                                             else d3)
                                   in (success_response (booking_id booking) orderId paymentReference,
                                       d4)))))))"

section \<open>Payment Webhook Handler\<close>

text \<open>\<open>src/app/api/paystack/webhook/route.ts\<close>\<close>

record webhook_request =
  raw_body :: string
  x_paystack_signature :: "string option"

datatype webhook_call_site =
    SelectPayment
  | UpdatePayment
  | UpdateBooking
  | UpdateSessionData

text \<open>
  What the handler takes from outside the request. The secret key is configuration; the
  HMAC-SHA512 of \<open>crypto\<close> (key, then message, giving hex text) and \<open>JSON.parse\<close> (\<open>None\<close> where
  it throws) belong to the platform and are parameters, as are the outcome of each
  statement and the clock.
\<close>

record webhook_env =
  PAYSTACK_SECRET_KEY :: string
  hmac_sha512_hex :: "string \<Rightarrow> string \<Rightarrow> string"
  JSON_parse :: "string \<Rightarrow> jsval option"
  webhook_store_error :: "webhook_call_site \<Rightarrow> pg_error option"
  webhook_paid_at_iso :: string
  webhook_session_clock_iso :: string

text \<open>
  \<open>custom_fields.find((field) => field.variable_name === 'sessionId')\<close>: the first entry
  that matches, \<open>undefined\<close> when none does, and a TypeError (\<open>None\<close>) when an entry met on
  the way is \<open>null\<close>.
\<close>

fun find_sessionId_field :: "jsval list \<Rightarrow> jsval option" where
  "find_sessionId_field [] = Some JUndefined"
| "find_sessionId_field (field # rest) =
     (case get_prop field ''variable_name'' of
        None \<Rightarrow> None
      | Some v \<Rightarrow> if v = JStr ''sessionId'' then Some field else find_sessionId_field rest)"

text \<open>
  Line 39:
  \<open>metadata?.sessionId || metadata?.custom_fields?.find(...)?.value\<close>.
  Where \<open>custom_fields\<close> is neither \<open>null\<close> nor \<open>undefined\<close> nor an array it has no \<open>find\<close>,
  and the call throws.
\<close>

definition extract_sessionId :: "jsval \<Rightarrow> jsval option" where
  "extract_sessionId metadata =
     (if truthy (opt_chain metadata ''sessionId'') then Some (opt_chain metadata ''sessionId'')
      else
        (case opt_chain metadata ''custom_fields'' of
           JUndefined \<Rightarrow> Some JUndefined
         | JNull \<Rightarrow> Some JUndefined
         | JArr entries \<Rightarrow>
             (case find_sessionId_field entries of
                None \<Rightarrow> None
              | Some found \<Rightarrow> Some (opt_chain found ''value''))
         | _ \<Rightarrow> None))"

text \<open>\<open>.from('payments').select('order_id').eq('payment_reference', reference).single()\<close>\<close>

definition select_payment :: "webhook_env \<Rightarrow> jsval \<Rightarrow> db \<Rightarrow> payment_row option" where
  "select_payment we reference d =
     (case webhook_store_error we SelectPayment of
        Some paymentError \<Rightarrow> None
      | None \<Rightarrow> single (filter (\<lambda>p. JStr (payment_reference p) = reference) (payments d)))"

definition mark_payment_success :: "webhook_env \<Rightarrow> jsval \<Rightarrow> db \<Rightarrow> db" where
  "mark_payment_success we reference d =
     (case webhook_store_error we UpdatePayment of
        Some updatePaymentError \<Rightarrow> d
      | None \<Rightarrow>
          d\<lparr>payments :=
              map (\<lambda>p. if JStr (payment_reference p) = reference
                       then p\<lparr> payment_status := ''success'',
                               payment_paid_at := webhook_paid_at_iso we \<rparr>
                       else p) (payments d)\<rparr>)"

definition mark_booking_paid :: "webhook_env \<Rightarrow> string \<Rightarrow> db \<Rightarrow> db" where
  "mark_booking_paid we orderId d =
     (case webhook_store_error we UpdateBooking of
        Some updateBookingError \<Rightarrow> d
      | None \<Rightarrow>
          d\<lparr>bookings :=
              map (\<lambda>b. if booking_order_id b = orderId
                       then b\<lparr> booking_status := ''paid'', booking_payment_status := ''paid'' \<rparr>
                       else b) (bookings d)\<rparr>)"

definition complete_session :: "webhook_env \<Rightarrow> jsval \<Rightarrow> jsval \<Rightarrow> string \<Rightarrow> db \<Rightarrow> db" where
  "complete_session we sid reference orderId d =
     (case webhook_store_error we UpdateSessionData of
        Some sessionError \<Rightarrow> d
      | None \<Rightarrow>
          d\<lparr>sessions :=
              map (\<lambda>s. if session_whatsapp_id s = sid
                       then s\<lparr> session_data := JObj [(''booking_completed'', JBool True),
                                                     (''payment_reference'', reference),
                                                     (''order_id'', JStr orderId)],
                               session_last_message_at := webhook_session_clock_iso we \<rparr>
                       else s) (sessions d)\<rparr>)"

definition received :: response where
  "received = Response 200 (JObj [(''received'', JBool True)])"

text \<open>
  The handler: the response and the store afterwards. Every TypeError and the failure of
  \<open>JSON.parse\<close> land in the \<open>catch\<close>, which answers 500.
\<close>

definition POST_paystack_webhook :: "webhook_env \<Rightarrow> db \<Rightarrow> webhook_request \<Rightarrow> response \<times> db" where
  "POST_paystack_webhook we d request =
     (case x_paystack_signature request of
        None \<Rightarrow> (error_response ''No signature provided'' 400, d)
      | Some signature \<Rightarrow>
          if signature = [] then (error_response ''No signature provided'' 400, d)
          else if hmac_sha512_hex we (PAYSTACK_SECRET_KEY we) (raw_body request) \<noteq> signature
          then (error_response ''Invalid signature'' 401, d)
          else
            (case JSON_parse we (raw_body request) of
               None \<Rightarrow> (error_response ''Internal server error'' 500, d)
             | Some event \<Rightarrow>
                 (case get_prop event ''event'' of
                    None \<Rightarrow> (error_response ''Internal server error'' 500, d)
                  | Some event_type \<Rightarrow>
                      if event_type = JStr ''charge.success''
                      then
                        (let data = opt_chain event ''data'' in
                         if data = JNull \<or> data = JUndefined
                         then (error_response ''Internal server error'' 500, d)
                         else
                           (let reference = opt_chain data ''reference'';
                                metadata = opt_chain data ''metadata''
                            in (case extract_sessionId metadata of
                                  None \<Rightarrow> (error_response ''Internal server error'' 500, d)
                                | Some sid \<Rightarrow>
                                    (case select_payment we reference d of
                                       None \<Rightarrow> (received, d)
                                     | Some payment \<Rightarrow>
                                         let d1 = mark_payment_success we reference d;
                                             d2 = mark_booking_paid we (payment_order_id payment) d1;
                                             d3 = (if truthy sid
                                                   then complete_session we sid reference
                                                          (payment_order_id payment) d2
                                                   else d2)
                                         in (received, d3)))))
                      else (received, d))))"

section \<open>Booking Wizard\<close>

text \<open>The booking page: \<open>calculateBookingDetails\<close> and \<open>canProceedToStep2\<close>.\<close>

subsection \<open>Numbers\<close>

text \<open>
  The wizard multiplies, so its numbers are the language's: a double is \<open>Num r\<close> with \<open>r\<close>
  the rational it stands for, or one of the three special values. The two zeros are not
  told apart. \<open>round_double\<close> is rounding to the nearest double, ties to the even
  significand: a double is a whole multiple of \<open>2^q\<close>, where \<open>q\<close> is 52 below the binary
  exponent of the number and never below \<open>-1074\<close>, and what rounds to \<open>2^1024\<close> or more is
  infinite.
\<close>

datatype number = NaN | Infinity | MinusInfinity | Num rat

fun bit_length :: "nat \<Rightarrow> nat" where
  "bit_length n = (if n = 0 then 0 else Suc (bit_length (n div 2)))"

text \<open>For \<open>a > 0\<close>, the exponent \<open>e\<close> with \<open>2^e \<le> a < 2^(e+1)\<close>.\<close>

definition floor_log2 :: "rat \<Rightarrow> int" where
  "floor_log2 a =
     (if 1 \<le> a then int (bit_length (nat \<lfloor>a\<rfloor>)) - 1
      else - int (bit_length (nat (\<lceil>1 / a\<rceil> - 1))))"

definition round_half_even :: "rat \<Rightarrow> int" where
  "round_half_even y =
     (let f = \<lfloor>y\<rfloor>; d = y - of_int f
      in if d < 1 / 2 then f
         else if 1 / 2 < d then f + 1
         else if even f then f else f + 1)"

definition round_double :: "rat \<Rightarrow> number" where
  "round_double x =
     (if x = 0 then Num 0
      else
        let a = \<bar>x\<bar>;
            e = floor_log2 a;
            q = max e (- 1022) - 52;
            m = round_half_even (a / 2 powi q);
            r = of_int m * 2 powi q
        in if 2 ^ 1024 \<le> r then (if 0 < x then Infinity else MinusInfinity)
           else Num (sgn x * r))"

definition number_sign :: "number \<Rightarrow> int" where
  "number_sign x =
     (case x of
        NaN \<Rightarrow> 0
      | Infinity \<Rightarrow> 1
      | MinusInfinity \<Rightarrow> - 1
      | Num a \<Rightarrow> if a < 0 then - 1 else if a = 0 then 0 else 1)"

text \<open>
  \<open>x * y\<close>: the exact product rounded once; with an infinite factor the sign decides, and
  zero times infinity is NaN, as is anything times NaN.
\<close>

definition js_times :: "number \<Rightarrow> number \<Rightarrow> number" where
  "js_times x y =
     (case (x, y) of
        (Num a, Num b) \<Rightarrow> round_double (a * b)
      | _ \<Rightarrow>
          if x = NaN \<or> y = NaN \<or> number_sign x * number_sign y = 0 then NaN
          else if 0 < number_sign x * number_sign y then Infinity
          else MinusInfinity)"

subsection \<open>The booking data\<close>

record Car =
  Car_car_id :: string
  Car_name :: string
  Car_category :: string
  Car_daily_rate :: number
  Car_seats :: nat
  Car_transmission :: string
  Car_fuel_type :: string
  Car_image_url :: string
  Car_features :: "string list"

record BookingData =
  bd_car :: "Car option"
  bd_pickupDate :: string
  bd_returnDate :: string
  bd_fullName :: string
  bd_phoneNumber :: string
  bd_email :: string
  bd_pickupLocation :: string



text \<open>A comparison of two dates is false when either is invalid.\<close>

definition canProceedToStep2 :: "(string \<Rightarrow> int option) \<Rightarrow> BookingData \<Rightarrow> bool" where
  "canProceedToStep2 getTime bookingData =
     (bd_pickupDate bookingData \<noteq> [] \<and> bd_returnDate bookingData \<noteq> [] \<and>
      (case (getTime (bd_returnDate bookingData), getTime (bd_pickupDate bookingData)) of
         (Some r, Some p) \<Rightarrow> r > p
       | _ \<Rightarrow> False))"

subsection \<open>Date-only strings\<close>








section \<open>Example data\<close>

definition example_env :: env where
  "example_env =
     \<lparr> store_error = (\<lambda>site. None),
       order_clock_iso = ''2024-01-01T09:30:00.000Z'',
       order_random36 = ''0.4fzyo82mvyr'',
       pay_clock_ms = 1704101400000,
       pay_random36 = ''0.k5x9q0w3zb7'',
       paid_at_iso = ''2024-01-01T09:30:00.001Z'',
       session_clock_iso = ''2024-01-01T09:30:00.002Z'' \<rparr>"

definition example_db :: db where
  "example_db =
     \<lparr> users = [\<lparr> user_id = 7, user_whatsapp_id = JStr ''wa-old'', user_phone = JStr ''0240000000'',
                  user_name = JStr ''Ama'', user_email = JNull \<rparr>],
       cars = [\<lparr> car_pk = 1, car_catalog_id = JStr ''CAR-001'', car_status = ''active'' \<rparr>,
               \<lparr> car_pk = 2, car_catalog_id = JStr ''CAR-002'', car_status = ''inactive'' \<rparr>],
       bookings = [],
       payments = [],
       sessions = [\<lparr> session_whatsapp_id = JStr ''wa-new'', session_state = ''SELECTING'',
                     session_data = JObj [], session_last_message_at = ''2024-01-01T09:00:00.000Z'' \<rparr>] \<rparr>"

text \<open>A store in which two users have the same phone number.\<close>

definition shared_phone_db :: db where
  "shared_phone_db =
     example_db\<lparr>users :=
       [\<lparr> user_id = 7, user_whatsapp_id = JStr ''wa-old'', user_phone = JStr ''0240000000'',
          user_name = JStr ''Ama'', user_email = JNull \<rparr>,
        \<lparr> user_id = 8, user_whatsapp_id = JStr ''wa-other'', user_phone = JStr ''0240000000'',
          user_name = JStr ''Kofi'', user_email = JNull \<rparr>]\<rparr>"

definition example_body :: "jsval \<Rightarrow> rat \<Rightarrow> rat \<Rightarrow> rat \<Rightarrow> jsval" where
  "example_body car n r t =
     JObj [(''car_id'', car),
           (''pickup_date'', JStr ''2024-01-01''),
           (''return_date'', JStr ''2024-01-03''),
           (''full_name'', JStr ''Ama Mensah''),
           (''phone_number'', JStr ''0240000000''),
           (''email'', JStr ''ama@example.com''),
           (''pickup_location'', JStr ''Airport''),
           (''days'', JNum n),
           (''daily_rate'', JNum r),
           (''total_amount'', JNum t),
           (''sessionId'', JStr ''wa-new'')]"

definition example_webhook_env :: webhook_env where
  "example_webhook_env =
     \<lparr> PAYSTACK_SECRET_KEY = ''sk_test'',
       hmac_sha512_hex = (\<lambda>key msg. ''c0ffee''),
       JSON_parse = (\<lambda>text.
         if text = ''refund'' then Some (JObj [(''event'', JStr ''refund.processed'')])
         else if text = ''charge''
         then Some (JObj [(''event'', JStr ''charge.success''),
                          (''data'', JObj [(''reference'', JStr ''PAY-1-UNKNOWN''),
                                           (''metadata'', JObj [(''sessionId'', JStr ''wa-new'')])])])
         else if text = ''charge-custom''
         then Some (JObj [(''event'', JStr ''charge.success''),
                          (''data'', JObj [(''reference'', JStr ''PAY-1-UNKNOWN''),
                                           (''metadata'', JObj [(''custom_fields'', JStr ''x'')])])])
         else None),
       webhook_store_error = (\<lambda>site. None),
       webhook_paid_at_iso = ''2024-01-01T09:31:00.000Z'',
       webhook_session_clock_iso = ''2024-01-01T09:31:00.001Z'' \<rparr>"





text \<open>An environment function in which one statement fails and every other succeeds.\<close>

definition failing :: "call_site \<Rightarrow> call_site \<Rightarrow> pg_error option" where
  "failing site =
     (\<lambda>s. None)(site := Some \<lparr> err_code = ''57014'',
                              err_message = Some ''canceling statement due to statement timeout'' \<rparr>)"

section \<open>Properties of the booking handler\<close>

subsection \<open>What each step leaves alone\<close>

declare decimal.simps [simp del]

lemma update_user_frame:
  "cars (update_user e site upd uid d) = cars d"
  "bookings (update_user e site upd uid d) = bookings d"
  "payments (update_user e site upd uid d) = payments d"
  "sessions (update_user e site upd uid d) = sessions d"
  by (simp_all add: update_user_def split: option.splits)

lemma insert_user_frame:
  assumes "insert_user e f d = (err, row, d')"
  shows "cars d' = cars d" "bookings d' = bookings d" "payments d' = payments d"
    "sessions d' = sessions d"
  using assms by (auto simp: insert_user_def Let_def split: option.splits)

lemma resolve_user_frame:
  assumes "resolve_user e f d = (r, d1)"
  shows "cars d1 = cars d" "bookings d1 = bookings d" "payments d1 = payments d"
    "sessions d1 = sessions d"
  using assms
  by (auto simp: resolve_user_def Let_def update_user_frame
      split: option.splits if_splits prod.splits dest: insert_user_frame)

lemma status_error_response [simp]: "status (error_response msg code) = code"
  by (simp add: error_response_def)

lemma status_success_response [simp]: "status (success_response bid oid pref) = 200"
  by (simp add: success_response_def)

lemma bookings_book_session [simp]:
  "bookings (book_session e sid oid pref bid d) = bookings d"
  by (simp add: book_session_def split: option.splits)

lemma bookings_insert_payment:
  "insert_payment e f oid pref d = (err, d') \<Longrightarrow> bookings d' = bookings d"
  by (auto simp: insert_payment_def Let_def split: option.splits)

lemma resolve_user_error_status:
  "resolve_user e f d = (Inl resp, d1) \<Longrightarrow> status resp = 500"
  by (auto simp: resolve_user_def Let_def split: option.splits if_splits prod.splits)

text \<open>The path of an accepted request.\<close>

lemma accepted_path:
  assumes "POST_booking_create e d request_json = (resp, d')" and "status resp = 200"
  obtains body f userId d1 carData booking d2 paymentError d3 where
    "request_json = Some body" "destructure body = Some f" "\<not> missing_required f"
    "resolve_user e f d = (Inr userId, d1)"
    "select_car e (car_id f) d1 = Some carData"
    "insert_booking e f (gen_order_id e) (gen_payment_reference e) userId carData d1
       = (None, Some booking, d2)"
    "insert_payment e f (gen_order_id e) (gen_payment_reference e) d2 = (paymentError, d3)"
    "d' = (if truthy (sessionId f)
           then book_session e (sessionId f) (gen_order_id e) (gen_payment_reference e)
                  (booking_id booking) d3
           else d3)"
    "resp = success_response (booking_id booking) (gen_order_id e) (gen_payment_reference e)"
  using assms
  by (auto simp: POST_booking_create_def Let_def
      split: option.splits if_splits prod.splits sum.splits
      dest: resolve_user_error_status)

lemma insert_booking_row:
  assumes "insert_booking e f oid pref uid car d = (None, Some row, d2)"
  shows "bookings d2 = bookings d @ [row]" "booking_days row = days f"
    "booking_daily_rate row = daily_rate f" "booking_total_amount row = total_amount f"
    "booking_user_id row = uid" "booking_car_id row = car_pk car"
    "booking_order_id row = oid" "booking_payment_reference row = pref"
    "users d2 = users d" "payments d2 = payments d"
  using assms by (auto simp: insert_booking_def Let_def split: option.splits)

subsection \<open>The stored total\<close>

text \<open>
  C1, as amended. The handler stores \<open>days\<close>, \<open>daily_rate\<close> and \<open>total_amount\<close> as they were
  submitted and computes nothing from them: for every request it accepts, the Booking row
  it appends holds the three submitted values, so the stored total is the product of the
  submitted days and daily rate exactly when the submitted total is.
\<close>

theorem booking_total_amount_as_submitted:
  assumes "POST_booking_create e d (Some body) = (resp, d')" and "status resp = 200"
    and "destructure body = Some f"
    and "days f = JNum n" and "daily_rate f = JNum r" and "total_amount f = JNum t"
  shows "\<exists>row. bookings d' = bookings d @ [row] \<and>
           booking_days row = JNum n \<and> booking_daily_rate row = JNum r \<and>
           booking_total_amount row = JNum t \<and>
           (booking_total_amount row = JNum (n * r) \<longleftrightarrow> t = n * r)"
proof -
  from assms(1,2) obtain f' userId d1 carData booking d2 paymentError d3 where
    f': "destructure body = Some f'"
    and ru: "resolve_user e f' d = (Inr userId, d1)"
    and ib: "insert_booking e f' (gen_order_id e) (gen_payment_reference e) userId carData d1
       = (None, Some booking, d2)"
    and ip: "insert_payment e f' (gen_order_id e) (gen_payment_reference e) d2 = (paymentError, d3)"
    and d': "d' = (if truthy (sessionId f')
           then book_session e (sessionId f') (gen_order_id e) (gen_payment_reference e)
                  (booking_id booking) d3
           else d3)"
    by (rule accepted_path) auto
  from f' assms(3) have [simp]: "f' = f" by simp
  have "bookings d' = bookings d3" using d' by simp
  also have "\<dots> = bookings d2" using ip by (rule bookings_insert_payment)
  also have "\<dots> = bookings d1 @ [booking]" using ib by (rule insert_booking_row)
  also have "bookings d1 = bookings d" using ru by (rule resolve_user_frame)
  finally have "bookings d' = bookings d @ [booking]" .
  moreover have "booking_days booking = JNum n" "booking_daily_rate booking = JNum r"
    "booking_total_amount booking = JNum t"
    using insert_booking_row(2-4) [OF ib] assms(4-6) by simp_all
  ultimately show ?thesis by auto
qed

subsection \<open>A run on the example data\<close>

text \<open>
  The example request for \<open>CAR-001\<close> on the example store, with any numbers for the days,
  the daily rate and the total.
\<close>

lemma example_order_id: "gen_order_id example_env = ''ORD-20240101-4FZYO8''"
  by (simp add: example_env_def gen_order_id_def toUpperCase_def upper_char_def substr_def
      slice0_def remove_dashes_def)

lemma example_payment_reference:
  "gen_payment_reference example_env = ''PAY-1704101400000-K5X9Q0W3Z''"
  by (simp add: example_env_def gen_payment_reference_def toUpperCase_def upper_char_def
      substr_def decimal.simps)

lemma example_ids:
  "gen_order_id (example_env\<lparr>store_error := se\<rparr>) = ''ORD-20240101-4FZYO8''"
  "gen_payment_reference (example_env\<lparr>store_error := se\<rparr>) = ''PAY-1704101400000-K5X9Q0W3Z''"
  by (simp_all add: example_env_def gen_order_id_def gen_payment_reference_def toUpperCase_def
      upper_char_def substr_def slice0_def remove_dashes_def decimal.simps)

lemma example_destructure:
  "destructure (example_body car n r t) =
     Some \<lparr> car_id = car, pickup_date = JStr ''2024-01-01'', return_date = JStr ''2024-01-03'',
            full_name = JStr ''Ama Mensah'', phone_number = JStr ''0240000000'',
            email = JStr ''ama@example.com'', pickup_location = JStr ''Airport'',
            days = JNum n, daily_rate = JNum r, total_amount = JNum t,
            sessionId = JStr ''wa-new'' \<rparr>"
  by (simp add: destructure_def example_body_def opt_chain_def)

lemma example_run:
  "POST_booking_create example_env example_db (Some (example_body (JStr ''CAR-001'') n r t)) =
     (success_response 1 ''ORD-20240101-4FZYO8'' ''PAY-1704101400000-K5X9Q0W3Z'',
      example_db\<lparr>
        users := [\<lparr> user_id = 7, user_whatsapp_id = JStr ''wa-new'',
                    user_phone = JStr ''0240000000'', user_name = JStr ''Ama Mensah'',
                    user_email = JStr ''ama@example.com'' \<rparr>],
        bookings := [\<lparr> booking_id = 1, booking_order_id = ''ORD-20240101-4FZYO8'',
                       booking_user_id = 7, booking_car_id = 1,
                       booking_pickup_date = JStr ''2024-01-01'',
                       booking_return_date = JStr ''2024-01-03'',
                       booking_pickup_location = JStr ''Airport'',
                       booking_days = JNum n, booking_daily_rate = JNum r,
                       booking_total_amount = JNum t, booking_deposit_amount = JNum t,
                       booking_balance_amount = JNum 0, booking_status = ''paid'',
                       booking_payment_status = ''paid'',
                       booking_payment_reference = ''PAY-1704101400000-K5X9Q0W3Z'' \<rparr>],
        payments := [\<lparr> payment_order_id = ''ORD-20240101-4FZYO8'',
                       payment_reference = ''PAY-1704101400000-K5X9Q0W3Z'',
                       payment_amount = JNum t, payment_currency = ''GHS'',
                       payment_status = ''success'', payment_provider = ''manual'',
                       payment_provider_reference = ''PAY-1704101400000-K5X9Q0W3Z'',
                       payment_paid_at = ''2024-01-01T09:30:00.001Z'',
                       payment_metadata = JObj [(''sessionId'', JStr ''wa-new'')] \<rparr>],
        sessions := [\<lparr> session_whatsapp_id = JStr ''wa-new'', session_state = ''BOOKED'',
                       session_data = JObj [(''booking_completed'', JBool True),
                         (''payment_reference'', JStr ''PAY-1704101400000-K5X9Q0W3Z''),
                         (''order_id'', JStr ''ORD-20240101-4FZYO8''),
                         (''booking_id'', JNum 1)],
                       session_last_message_at = ''2024-01-01T09:30:00.002Z'' \<rparr>] \<rparr>)"
  by (simp add: POST_booking_create_def example_destructure example_order_id
      example_payment_reference Let_def)
    (simp add: example_order_id [unfolded example_env_def]
      example_payment_reference [unfolded example_env_def]
      example_env_def example_db_def missing_required_def resolve_user_def select_user_def
      update_user_def whatsappId_def js_or_def patch_def maybeSingle_def single_def
      select_car_def insert_booking_def insert_payment_def book_session_def fresh_id_def Let_def)

text \<open>
  C1 as it is written fails: a request that submits 2 days at a daily rate of 200 with a
  total of 1 is accepted, and the row stored has the total 1.
\<close>

theorem booking_total_amount_counterexample:
  "status (fst (POST_booking_create example_env example_db
      (Some (example_body (JStr ''CAR-001'') 2 200 1)))) = 200 \<and>
   map booking_days (bookings (snd (POST_booking_create example_env example_db
      (Some (example_body (JStr ''CAR-001'') 2 200 1))))) = [JNum 2] \<and>
   map booking_daily_rate (bookings (snd (POST_booking_create example_env example_db
      (Some (example_body (JStr ''CAR-001'') 2 200 1))))) = [JNum 200] \<and>
   map booking_total_amount (bookings (snd (POST_booking_create example_env example_db
      (Some (example_body (JStr ''CAR-001'') 2 200 1))))) = [JNum 1] \<and>
   JNum 1 \<noteq> JNum (2 * 200)"
  by (simp add: example_run)

theorem booking_total_amount_as_submitted_witness:
  "status (fst (POST_booking_create example_env example_db
      (Some (example_body (JStr ''CAR-001'') 2 200 400)))) = 200 \<and>
   (\<exists>row. bookings (snd (POST_booking_create example_env example_db
              (Some (example_body (JStr ''CAR-001'') 2 200 400)))) = bookings example_db @ [row] \<and>
           booking_days row = JNum 2 \<and> booking_daily_rate row = JNum 200 \<and>
           booking_total_amount row = JNum 400 \<and>
           (booking_total_amount row = JNum (2 * 200) \<longleftrightarrow> (400::rat) = 2 * 200))"
  using booking_total_amount_as_submitted [of example_env example_db
      "example_body (JStr ''CAR-001'') 2 200 400"
      "fst (POST_booking_create example_env example_db
        (Some (example_body (JStr ''CAR-001'') 2 200 400)))"
      "snd (POST_booking_create example_env example_db
        (Some (example_body (JStr ''CAR-001'') 2 200 400)))" _ 2 200 400]
  by (simp add: example_run example_destructure)

subsection \<open>Required fields\<close>

text \<open>
  C6, as amended. Take a request whose body is JSON other than \<open>null\<close>, so that its fields
  can be read. If reading any one of \<open>car_id\<close>, \<open>pickup_date\<close>, \<open>return_date\<close>,
  \<open>full_name\<close>, \<open>phone_number\<close> and \<open>pickup_location\<close> gives \<open>undefined\<close>, the field being
  absent, the request is answered with status 400 and the body
  \<open>{error: "Missing required fields"}\<close>, and the store is what it was: nothing is written.
\<close>

theorem booking_missing_field_rejected:
  assumes "k \<in> {''car_id'', ''pickup_date'', ''return_date'', ''full_name'', ''phone_number'',
                ''pickup_location''}"
    and "get_prop body k = Some JUndefined"
  shows "POST_booking_create e d (Some body) =
           (Response 400 (JObj [(''error'', JStr ''Missing required fields'')]), d)"
proof -
  from assms(2) have nn: "body \<noteq> JNull" "body \<noteq> JUndefined"
    by auto
  from assms(2) have absent: "opt_chain body k = JUndefined"
    by (simp add: opt_chain_def)
  obtain f where f: "destructure body = Some f"
    using nn by (simp add: destructure_def)
  have "missing_required f"
    using assms(1) absent f nn by (auto simp: destructure_def missing_required_def)
  with f show ?thesis
    by (simp add: POST_booking_create_def error_response_def)
qed

text \<open>
  C6 as it is written fails: a request whose body is the JSON text \<open>null\<close> has none of the
  fields, and one whose body is not JSON has no fields at all; the first throws when the
  fields are taken out, the second when the body is parsed, and both are answered 500 with
  \<open>Internal server error\<close>, not 400.
\<close>

theorem booking_missing_field_counterexample:
  "get_prop JNull ''pickup_location'' = None \<and>
   POST_booking_create example_env example_db (Some JNull) =
     (Response 500 (JObj [(''error'', JStr ''Internal server error'')]), example_db) \<and>
   POST_booking_create example_env example_db None =
     (Response 500 (JObj [(''error'', JStr ''Internal server error'')]), example_db) \<and>
   status (fst (POST_booking_create example_env example_db (Some JNull))) \<noteq> 400"
  by (simp add: POST_booking_create_def destructure_def error_response_def)

theorem booking_missing_field_rejected_witness:
  "get_prop (JObj [(''car_id'', JStr ''CAR-001''), (''pickup_date'', JStr ''2024-01-01''),
           (''return_date'', JStr ''2024-01-03''), (''full_name'', JStr ''Ama Mensah''),
           (''phone_number'', JStr ''0240000000'')]) ''pickup_location'' = Some JUndefined \<and>
   POST_booking_create example_env example_db
     (Some (JObj [(''car_id'', JStr ''CAR-001''), (''pickup_date'', JStr ''2024-01-01''),
                  (''return_date'', JStr ''2024-01-03''), (''full_name'', JStr ''Ama Mensah''),
                  (''phone_number'', JStr ''0240000000'')])) =
     (Response 400 (JObj [(''error'', JStr ''Missing required fields'')]), example_db)"
  using booking_missing_field_rejected [of "''pickup_location''"
      "JObj [(''car_id'', JStr ''CAR-001''), (''pickup_date'', JStr ''2024-01-01''),
        (''return_date'', JStr ''2024-01-03''), (''full_name'', JStr ''Ama Mensah''),
        (''phone_number'', JStr ''0240000000'')]" example_env example_db]
  by simp

subsection \<open>User resolution\<close>


lemma users_book_session [simp]:
  "users (book_session e sid oid pref bid d) = users d"
  by (simp add: book_session_def split: option.splits)

lemma users_after_resolve_user:
  assumes "destructure body = Some f" and "\<not> missing_required f"
  shows "users (snd (POST_booking_create e d (Some body))) = users (snd (resolve_user e f d))"
  using assms
  by (auto simp: POST_booking_create_def insert_booking_def insert_payment_def Let_def
      split: option.splits prod.splits sum.splits)

lemma select_user_member:
  "select_user e site column v d = Some u \<Longrightarrow> u \<in> set (users d) \<and> column u = v"
  by (auto simp: select_user_def maybeSingle_def split: option.splits list.splits
      dest!: arg_cong [where f = set])

text \<open>
  C2, as amended. Take a request that passes validation and carries an external-session
  id. If the lookup by that id finds no User and the lookup by phone number returns the
  User \<open>u\<close>, which it does when it does not fail and \<open>u\<close> is the one row with that phone
  number, and the store carries out the update the handler then sends, the identity
  resolved is \<open>u\<close>:
  the rows with the id of \<open>u\<close> get the request's external-session id in place of their own
  (and the name and email submitted), no other row changes and none is added, and the
  Booking of an accepted request belongs to \<open>u\<close>.
\<close>

theorem phone_matched_user_adopted:
  assumes "destructure body = Some f" and "\<not> missing_required f"
    and "truthy (sessionId f)"
    and "select_user e LookupUserByWhatsapp user_whatsapp_id (sessionId f) d = None"
    and "select_user e LookupUserByPhone user_phone (phone_number f) d = Some u"
    and "store_error e AdoptUserByPhone = None"
  shows "fst (resolve_user e f d) = Inr (user_id u) \<and>
         u \<in> set (users d) \<and> user_phone u = phone_number f \<and>
         users (snd (POST_booking_create e d (Some body))) =
           map (\<lambda>v. if user_id v = user_id u
                    then v\<lparr> user_name := patch (js_or (full_name f) JUndefined) (user_name v),
                            user_email := patch (js_or (email f) JUndefined) (user_email v),
                            user_whatsapp_id := sessionId f \<rparr>
                    else v) (users d) \<and>
         (\<forall>v \<in> set (users (snd (POST_booking_create e d (Some body)))).
            user_id v = user_id u \<longrightarrow> user_whatsapp_id v = sessionId f) \<and>
         (status (fst (POST_booking_create e d (Some body))) = 200 \<longrightarrow>
            (\<exists>row. bookings (snd (POST_booking_create e d (Some body))) = bookings d @ [row] \<and>
                   booking_user_id row = user_id u))"
proof -
  have w: "whatsappId f = sessionId f"
    using assms(3) by (simp add: whatsappId_def js_or_def)
  have nu: "sessionId f \<noteq> JUndefined"
    using assms(3) by auto
  have ru: "resolve_user e f d =
      (Inr (user_id u),
       d\<lparr>users := map (\<lambda>v. if user_id v = user_id u
                    then v\<lparr> user_name := patch (js_or (full_name f) JUndefined) (user_name v),
                            user_email := patch (js_or (email f) JUndefined) (user_email v),
                            user_whatsapp_id := sessionId f \<rparr>
                    else v) (users d)\<rparr>)"
    using assms(4,5,6) nu by (simp add: resolve_user_def w update_user_def Let_def patch_def)
  have us: "users (snd (POST_booking_create e d (Some body))) =
           map (\<lambda>v. if user_id v = user_id u
                    then v\<lparr> user_name := patch (js_or (full_name f) JUndefined) (user_name v),
                            user_email := patch (js_or (email f) JUndefined) (user_email v),
                            user_whatsapp_id := sessionId f \<rparr>
                    else v) (users d)"
    using users_after_resolve_user [OF assms(1,2), of e d] ru by simp
  have bk: "\<exists>row. bookings (snd (POST_booking_create e d (Some body))) = bookings d @ [row] \<and>
                   booking_user_id row = user_id u"
    if acc: "status (fst (POST_booking_create e d (Some body))) = 200"
  proof -
    obtain resp d' where p: "POST_booking_create e d (Some body) = (resp, d')"
      by (cases "POST_booking_create e d (Some body)")
    with acc have "status resp = 200" by simp
    with p obtain f' userId d1 carData booking d2 paymentError d3 where
      f': "destructure body = Some f'"
      and ru': "resolve_user e f' d = (Inr userId, d1)"
      and ib: "insert_booking e f' (gen_order_id e) (gen_payment_reference e) userId carData d1
         = (None, Some booking, d2)"
      and ip: "insert_payment e f' (gen_order_id e) (gen_payment_reference e) d2 = (paymentError, d3)"
      and d': "d' = (if truthy (sessionId f')
             then book_session e (sessionId f') (gen_order_id e) (gen_payment_reference e)
                    (booking_id booking) d3
             else d3)"
      by (rule accepted_path) auto
    from f' assms(1) have [simp]: "f' = f" by simp
    from ru ru' have [simp]: "userId = user_id u" by simp
    have "bookings d' = bookings d3" using d' by simp
    also have "\<dots> = bookings d2" using ip by (rule bookings_insert_payment)
    also have "\<dots> = bookings d1 @ [booking]" using ib by (rule insert_booking_row)
    also have "bookings d1 = bookings d" using ru' by (rule resolve_user_frame)
    finally have "bookings d' = bookings d @ [booking]" .
    moreover have "booking_user_id booking = user_id u"
      using insert_booking_row(5) [OF ib] by simp
    ultimately show ?thesis using p by auto
  qed
  from select_user_member [OF assms(5)] have "u \<in> set (users d)" "user_phone u = phone_number f"
    by simp_all
  with ru us bk show ?thesis by auto
qed

theorem phone_matched_user_adopted_witness:
  "truthy (JStr ''wa-new'') \<and>
   select_user example_env LookupUserByWhatsapp user_whatsapp_id (JStr ''wa-new'') example_db = None \<and>
   select_user example_env LookupUserByPhone user_phone (JStr ''0240000000'') example_db =
     Some \<lparr> user_id = 7, user_whatsapp_id = JStr ''wa-old'', user_phone = JStr ''0240000000'',
            user_name = JStr ''Ama'', user_email = JNull \<rparr> \<and>
   store_error example_env AdoptUserByPhone = None \<and>
   fst (resolve_user example_env
          \<lparr> car_id = JStr ''CAR-001'', pickup_date = JStr ''2024-01-01'',
            return_date = JStr ''2024-01-03'', full_name = JStr ''Ama Mensah'',
            phone_number = JStr ''0240000000'', email = JStr ''ama@example.com'',
            pickup_location = JStr ''Airport'', days = JNum 2, daily_rate = JNum 200,
            total_amount = JNum 400, sessionId = JStr ''wa-new'' \<rparr> example_db) = Inr 7 \<and>
   users (snd (POST_booking_create example_env example_db
      (Some (example_body (JStr ''CAR-001'') 2 200 400)))) =
     [\<lparr> user_id = 7, user_whatsapp_id = JStr ''wa-new'', user_phone = JStr ''0240000000'',
        user_name = JStr ''Ama Mensah'', user_email = JStr ''ama@example.com'' \<rparr>] \<and>
   map booking_user_id (bookings (snd (POST_booking_create example_env example_db
      (Some (example_body (JStr ''CAR-001'') 2 200 400))))) = [7]"
proof -
  let ?f = "\<lparr> car_id = JStr ''CAR-001'', pickup_date = JStr ''2024-01-01'',
         return_date = JStr ''2024-01-03'', full_name = JStr ''Ama Mensah'',
         phone_number = JStr ''0240000000'', email = JStr ''ama@example.com'',
         pickup_location = JStr ''Airport'', days = JNum 2, daily_rate = JNum 200,
         total_amount = JNum 400, sessionId = JStr ''wa-new'' \<rparr>"
  let ?u = "\<lparr> user_id = 7, user_whatsapp_id = JStr ''wa-old'', user_phone = JStr ''0240000000'',
         user_name = JStr ''Ama'', user_email = JNull \<rparr>"
  have h1: "destructure (example_body (JStr ''CAR-001'') 2 200 400) = Some ?f"
    by (rule example_destructure)
  have h2: "\<not> missing_required ?f"
    by (simp add: missing_required_def)
  have h3: "truthy (sessionId ?f)"
    by simp
  have h4: "select_user example_env LookupUserByWhatsapp user_whatsapp_id (sessionId ?f) example_db
      = None"
    by (simp add: select_user_def example_env_def example_db_def maybeSingle_def)
  have h5: "select_user example_env LookupUserByPhone user_phone (phone_number ?f) example_db
      = Some ?u"
    by (simp add: select_user_def example_env_def example_db_def maybeSingle_def)
  have h6: "store_error example_env AdoptUserByPhone = None"
    by (simp add: example_env_def)
  from phone_matched_user_adopted [OF h1 h2 h3 h4 h5 h6] h3 h4 h5 h6
  show ?thesis
    by (simp add: example_run patch_def js_or_def)
qed


text \<open>
  C2 as it is written fails twice. Where two users have the phone number of the request,
  the lookup by phone number returns no row, and the handler creates a third user and
  books for it: neither of the two gets the external-session id. Where one user has it and
  the store fails the update, that user is the identity resolved and the Booking is made
  for it, but its external-session id stays what it was.
\<close>

theorem phone_matched_user_counterexample:
  "map user_phone (users shared_phone_db) = [JStr ''0240000000'', JStr ''0240000000''] \<and>
   map user_whatsapp_id (users shared_phone_db) = [JStr ''wa-old'', JStr ''wa-other''] \<and>
   users (snd (POST_booking_create example_env shared_phone_db
     (Some (example_body (JStr ''CAR-001'') 2 200 400)))) =
     users shared_phone_db @
       [\<lparr> user_id = 9, user_whatsapp_id = JStr ''wa-new'', user_phone = JStr ''0240000000'',
          user_name = JStr ''Ama Mensah'', user_email = JStr ''ama@example.com'' \<rparr>] \<and>
   map booking_user_id (bookings (snd (POST_booking_create example_env shared_phone_db
     (Some (example_body (JStr ''CAR-001'') 2 200 400))))) = [9] \<and>
   map user_phone (users example_db) = [JStr ''0240000000''] \<and>
   map user_whatsapp_id (users (snd (POST_booking_create
     (example_env\<lparr>store_error := failing AdoptUserByPhone\<rparr>) example_db
     (Some (example_body (JStr ''CAR-001'') 2 200 400))))) = [JStr ''wa-old''] \<and>
   map booking_user_id (bookings (snd (POST_booking_create
     (example_env\<lparr>store_error := failing AdoptUserByPhone\<rparr>) example_db
     (Some (example_body (JStr ''CAR-001'') 2 200 400))))) = [7]"
proof -
  have se: "store_error example_env site = None" for site
    by (simp add: example_env_def)
  have shared: "POST_booking_create example_env shared_phone_db
      (Some (example_body (JStr ''CAR-001'') 2 200 400)) =
    (success_response 1 ''ORD-20240101-4FZYO8'' ''PAY-1704101400000-K5X9Q0W3Z'',
     snd (POST_booking_create example_env shared_phone_db
       (Some (example_body (JStr ''CAR-001'') 2 200 400)))) \<and>
    users (snd (POST_booking_create example_env shared_phone_db
     (Some (example_body (JStr ''CAR-001'') 2 200 400)))) =
     users shared_phone_db @
       [\<lparr> user_id = 9, user_whatsapp_id = JStr ''wa-new'', user_phone = JStr ''0240000000'',
          user_name = JStr ''Ama Mensah'', user_email = JStr ''ama@example.com'' \<rparr>] \<and>
    map booking_user_id (bookings (snd (POST_booking_create example_env shared_phone_db
     (Some (example_body (JStr ''CAR-001'') 2 200 400))))) = [9]"
    by (simp add: POST_booking_create_def example_destructure missing_required_def
        example_order_id example_payment_reference Let_def)
      (simp add: resolve_user_def select_user_def insert_user_def whatsappId_def js_or_def
        maybeSingle_def single_def select_car_def insert_booking_def insert_payment_def
        book_session_def fresh_id_def se shared_phone_db_def example_db_def Let_def
        example_order_id example_payment_reference)
  let ?e = "example_env\<lparr>store_error := failing AdoptUserByPhone\<rparr>"
  have fe: "store_error ?e AdoptUserByPhone \<noteq> None"
    "store_error ?e LookupUserByWhatsapp = None" "store_error ?e LookupUserByPhone = None"
    "store_error ?e LookupCar = None" "store_error ?e InsertBooking = None"
    "store_error ?e InsertPayment = None" "store_error ?e UpdateSession = None"
    by (simp_all add: failing_def)
  have failed: "map user_whatsapp_id (users (snd (POST_booking_create ?e example_db
       (Some (example_body (JStr ''CAR-001'') 2 200 400))))) = [JStr ''wa-old''] \<and>
     map booking_user_id (bookings (snd (POST_booking_create ?e example_db
       (Some (example_body (JStr ''CAR-001'') 2 200 400))))) = [7]"
    using fe
    by (simp add: POST_booking_create_def example_destructure missing_required_def
        example_ids Let_def)
      (auto simp: resolve_user_def select_user_def update_user_def whatsappId_def js_or_def
        maybeSingle_def single_def select_car_def insert_booking_def insert_payment_def
        book_session_def fresh_id_def example_db_def Let_def)
  from shared failed show ?thesis
    by (simp add: shared_phone_db_def example_db_def)
qed

subsection \<open>Failed inserts\<close>

lemma payments_book_session [simp]:
  "payments (book_session e sid oid pref bid d) = payments d"
  by (simp add: book_session_def split: option.splits)

text \<open>
  C5. Take a request that reaches the insert of the Booking row: it passes validation, a
  user is resolved and the car is found. If the store fails that insert, the handler answers
  500 with \<open>Failed to create booking\<close> and no Booking or Payment row is written. If the
  insert succeeds and the store fails the insert of the Payment row, the handler still
  answers with the success response, and the Booking row is in the store while
  no Payment row is.
\<close>

theorem booking_failure_aborts_payment_failure_does_not:
  assumes "destructure body = Some f" and "\<not> missing_required f"
    and "resolve_user e f d = (Inr userId, d1)"
    and "select_car e (car_id f) d1 = Some carData"
  shows "(store_error e InsertBooking \<noteq> None \<longrightarrow>
            POST_booking_create e d (Some body) =
              (Response 500 (JObj [(''error'', JStr ''Failed to create booking'')]), d1) \<and>
            bookings d1 = bookings d \<and> payments d1 = payments d) \<and>
         (store_error e InsertBooking = None \<and> store_error e InsertPayment \<noteq> None \<longrightarrow>
            (\<exists>row. fst (POST_booking_create e d (Some body)) =
                     success_response (booking_id row) (gen_order_id e) (gen_payment_reference e) \<and>
                   bookings (snd (POST_booking_create e d (Some body))) = bookings d @ [row] \<and>
                   booking_order_id row = gen_order_id e \<and>
                   booking_user_id row = userId \<and>
                   booking_car_id row = car_pk carData \<and>
                   payments (snd (POST_booking_create e d (Some body))) = payments d))"
  using assms resolve_user_frame [OF assms(3)]
  by (auto simp: POST_booking_create_def insert_booking_def insert_payment_def Let_def
      error_response_def)

text \<open>The steps of the run on the example data, for any outcome of the later statements.\<close>

lemma example_resolve_user:
  assumes "store_error e LookupUserByWhatsapp = None" and "store_error e LookupUserByPhone = None"
    and "store_error e AdoptUserByPhone = None"
  shows "resolve_user e
           \<lparr> car_id = car, pickup_date = JStr ''2024-01-01'', return_date = JStr ''2024-01-03'',
             full_name = JStr ''Ama Mensah'', phone_number = JStr ''0240000000'',
             email = JStr ''ama@example.com'', pickup_location = JStr ''Airport'',
             days = JNum n, daily_rate = JNum r, total_amount = JNum t,
             sessionId = JStr ''wa-new'' \<rparr> example_db =
         (Inr 7, example_db\<lparr>users :=
            [\<lparr> user_id = 7, user_whatsapp_id = JStr ''wa-new'', user_phone = JStr ''0240000000'',
               user_name = JStr ''Ama Mensah'', user_email = JStr ''ama@example.com'' \<rparr>]\<rparr>)"
  using assms
  by (simp add: resolve_user_def select_user_def update_user_def whatsappId_def js_or_def
      patch_def maybeSingle_def example_db_def Let_def)

lemma example_select_car:
  assumes "store_error e LookupCar = None"
  shows "select_car e (JStr ''CAR-001'') (example_db\<lparr>users := us\<rparr>) =
           Some \<lparr> car_pk = 1, car_catalog_id = JStr ''CAR-001'', car_status = ''active'' \<rparr>"
    and "select_car e (JStr ''CAR-002'') (example_db\<lparr>users := us\<rparr>) =
           Some \<lparr> car_pk = 2, car_catalog_id = JStr ''CAR-002'', car_status = ''inactive'' \<rparr>"
  using assms by (simp_all add: select_car_def single_def example_db_def)

theorem booking_failure_aborts_payment_failure_does_not_witness:
  "POST_booking_create (example_env\<lparr>store_error := failing InsertBooking\<rparr>) example_db
     (Some (example_body (JStr ''CAR-001'') 2 200 400)) =
     (Response 500 (JObj [(''error'', JStr ''Failed to create booking'')]),
      example_db\<lparr>users :=
        [\<lparr> user_id = 7, user_whatsapp_id = JStr ''wa-new'', user_phone = JStr ''0240000000'',
           user_name = JStr ''Ama Mensah'', user_email = JStr ''ama@example.com'' \<rparr>]\<rparr>) \<and>
   (\<exists>row. fst (POST_booking_create (example_env\<lparr>store_error := failing InsertPayment\<rparr>)
                 example_db (Some (example_body (JStr ''CAR-001'') 2 200 400))) =
              success_response (booking_id row) ''ORD-20240101-4FZYO8''
                ''PAY-1704101400000-K5X9Q0W3Z'' \<and>
          bookings (snd (POST_booking_create (example_env\<lparr>store_error := failing InsertPayment\<rparr>)
                 example_db (Some (example_body (JStr ''CAR-001'') 2 200 400)))) = [row] \<and>
          booking_order_id row = ''ORD-20240101-4FZYO8'' \<and>
          payments (snd (POST_booking_create (example_env\<lparr>store_error := failing InsertPayment\<rparr>)
                 example_db (Some (example_body (JStr ''CAR-001'') 2 200 400)))) = [])"
proof -
  let ?f = "\<lparr> car_id = JStr ''CAR-001'', pickup_date = JStr ''2024-01-01'',
         return_date = JStr ''2024-01-03'', full_name = JStr ''Ama Mensah'',
         phone_number = JStr ''0240000000'', email = JStr ''ama@example.com'',
         pickup_location = JStr ''Airport'', days = JNum 2, daily_rate = JNum 200,
         total_amount = JNum 400, sessionId = JStr ''wa-new'' \<rparr>"
  let ?d1 = "example_db\<lparr>users :=
        [\<lparr> user_id = 7, user_whatsapp_id = JStr ''wa-new'', user_phone = JStr ''0240000000'',
           user_name = JStr ''Ama Mensah'', user_email = JStr ''ama@example.com'' \<rparr>]\<rparr>"
  let ?car = "\<lparr> car_pk = 1, car_catalog_id = JStr ''CAR-001'', car_status = ''active'' \<rparr>"
  have h1: "destructure (example_body (JStr ''CAR-001'') 2 200 400) = Some ?f"
    by (rule example_destructure)
  have h2: "\<not> missing_required ?f"
    by (simp add: missing_required_def)
  have h3: "resolve_user (example_env\<lparr>store_error := failing site\<rparr>) ?f example_db = (Inr 7, ?d1)"
    if "site = InsertBooking \<or> site = InsertPayment" for site
    using that by (intro example_resolve_user) (auto simp: failing_def)
  have h4: "select_car (example_env\<lparr>store_error := failing site\<rparr>) (car_id ?f) ?d1 = Some ?car"
    if "site = InsertBooking \<or> site = InsertPayment" for site
    using that example_select_car(1) [of "example_env\<lparr>store_error := failing site\<rparr>"]
    by (auto simp: failing_def)
  have a: "store_error (example_env\<lparr>store_error := failing InsertBooking\<rparr>) InsertBooking \<noteq> None"
    by (simp add: failing_def)
  have b: "store_error (example_env\<lparr>store_error := failing InsertPayment\<rparr>) InsertBooking = None \<and>
           store_error (example_env\<lparr>store_error := failing InsertPayment\<rparr>) InsertPayment \<noteq> None"
    by (simp add: failing_def)
  from booking_failure_aborts_payment_failure_does_not [OF h1 h2 h3 h4, of InsertBooking] a
  have A: "POST_booking_create (example_env\<lparr>store_error := failing InsertBooking\<rparr>) example_db
     (Some (example_body (JStr ''CAR-001'') 2 200 400)) =
     (Response 500 (JObj [(''error'', JStr ''Failed to create booking'')]), ?d1)"
    by simp
  from booking_failure_aborts_payment_failure_does_not [OF h1 h2 h3 h4, of InsertPayment] b
  have B: "\<exists>row. fst (POST_booking_create (example_env\<lparr>store_error := failing InsertPayment\<rparr>)
                 example_db (Some (example_body (JStr ''CAR-001'') 2 200 400))) =
              success_response (booking_id row) ''ORD-20240101-4FZYO8''
                ''PAY-1704101400000-K5X9Q0W3Z'' \<and>
          bookings (snd (POST_booking_create (example_env\<lparr>store_error := failing InsertPayment\<rparr>)
                 example_db (Some (example_body (JStr ''CAR-001'') 2 200 400)))) = [row] \<and>
          booking_order_id row = ''ORD-20240101-4FZYO8'' \<and>
          payments (snd (POST_booking_create (example_env\<lparr>store_error := failing InsertPayment\<rparr>)
                 example_db (Some (example_body (JStr ''CAR-001'') 2 200 400)))) = []"
    by (simp add: example_ids) (auto simp: example_db_def)
  from A B show ?thesis by simp
qed


subsection \<open>Car resolution\<close>

text \<open>
  What holds of the car of an accepted request: the lookup by catalog id returned exactly
  one row of the table, and the Booking points at it. The lookup does not read the status.
\<close>

lemma booking_car_resolved_by_catalog_id:
  assumes "POST_booking_create e d (Some body) = (resp, d')" and "status resp = 200"
    and "destructure body = Some f"
  shows "\<exists>car row. filter (\<lambda>c. car_catalog_id c = car_id f) (cars d) = [car] \<and>
           bookings d' = bookings d @ [row] \<and> booking_car_id row = car_pk car"
proof -
  from assms(1,2) obtain f' userId d1 carData booking d2 paymentError d3 where
    f': "destructure body = Some f'"
    and ru: "resolve_user e f' d = (Inr userId, d1)"
    and sc: "select_car e (car_id f') d1 = Some carData"
    and ib: "insert_booking e f' (gen_order_id e) (gen_payment_reference e) userId carData d1
       = (None, Some booking, d2)"
    and ip: "insert_payment e f' (gen_order_id e) (gen_payment_reference e) d2 = (paymentError, d3)"
    and d': "d' = (if truthy (sessionId f')
           then book_session e (sessionId f') (gen_order_id e) (gen_payment_reference e)
                  (booking_id booking) d3
           else d3)"
    by (rule accepted_path) auto
  from f' assms(3) have [simp]: "f' = f" by simp
  have "bookings d' = bookings d3" using d' by simp
  also have "\<dots> = bookings d2" using ip by (rule bookings_insert_payment)
  also have "\<dots> = bookings d1 @ [booking]" using ib by (rule insert_booking_row)
  also have "bookings d1 = bookings d" using ru by (rule resolve_user_frame)
  finally have "bookings d' = bookings d @ [booking]" .
  moreover have "booking_car_id booking = car_pk carData"
    using ib by (rule insert_booking_row)
  moreover have "filter (\<lambda>c. car_catalog_id c = car_id f) (cars d) = [carData]"
    using sc resolve_user_frame(1) [OF ru]
    by (auto simp: select_car_def single_def split: option.splits list.splits)
  ultimately show ?thesis by blast
qed

text \<open>
  C7, at the input where the handler departs from it. In the example store the catalog id
  \<open>CAR-002\<close> belongs to one car, whose status is \<open>inactive\<close>. A request for it is accepted:
  the response is the success response and a Booking for that car is stored.
\<close>

theorem inactive_car_is_booked:
  "filter (\<lambda>c. car_catalog_id c = JStr ''CAR-002'') (cars example_db) =
     [\<lparr> car_pk = 2, car_catalog_id = JStr ''CAR-002'', car_status = ''inactive'' \<rparr>] \<and>
   fst (POST_booking_create example_env example_db (Some (example_body (JStr ''CAR-002'') 2 200 400))) =
     success_response 1 ''ORD-20240101-4FZYO8'' ''PAY-1704101400000-K5X9Q0W3Z'' \<and>
   map booking_car_id (bookings (snd (POST_booking_create example_env example_db
     (Some (example_body (JStr ''CAR-002'') 2 200 400))))) = [2]"
proof -
  have se: "store_error example_env site = None" for site
    by (simp add: example_env_def)
  have "fst (POST_booking_create example_env example_db
              (Some (example_body (JStr ''CAR-002'') 2 200 400))) =
          success_response 1 ''ORD-20240101-4FZYO8'' ''PAY-1704101400000-K5X9Q0W3Z'' \<and>
        map booking_car_id (bookings (snd (POST_booking_create example_env example_db
          (Some (example_body (JStr ''CAR-002'') 2 200 400))))) = [2]"
    by (simp add: POST_booking_create_def example_destructure missing_required_def
        example_resolve_user [OF se se se] example_select_car [OF se] example_order_id
        example_payment_reference insert_booking_def insert_payment_def se Let_def)
      (simp add: example_db_def fresh_id_def)
  then show ?thesis by (simp add: example_db_def)
qed

subsection \<open>Generated identifiers\<close>

text \<open>
  The random part of an identifier is cut from the base-36 text of the number drawn: it has
  the length asked for only when that text has enough digits after \<open>0.\<close>, and is shorter
  otherwise.
\<close>

lemma suffix_length: "length (toUpperCase (substr r 2 n)) = min n (length r - 2)"
  by (simp add: toUpperCase_def substr_def min.commute)

lemma upper_char_base36:
  "c \<in> set ''0123456789abcdefghijklmnopqrstuvwxyz'' \<Longrightarrow> base36_upper (upper_char c)"
  by (auto simp: base36_upper_def upper_char_def)

text \<open>
  C8, at the input where the handler departs from it. When both draws of the random
  generator give one half, whose base-36 text is \<open>0.i\<close>, the request is accepted with the
  order id \<open>ORD-20240101-I\<close> and the payment reference \<open>PAY-1704101400000-I\<close>: one
  character after the last dash, not six and nine.
\<close>

theorem short_random_rendering_gives_short_ids:
  "gen_order_id (example_env\<lparr>order_random36 := ''0.i'', pay_random36 := ''0.i''\<rparr>) =
     ''ORD-20240101-I'' \<and>
   gen_payment_reference (example_env\<lparr>order_random36 := ''0.i'', pay_random36 := ''0.i''\<rparr>) =
     ''PAY-1704101400000-I'' \<and>
   fst (POST_booking_create (example_env\<lparr>order_random36 := ''0.i'', pay_random36 := ''0.i''\<rparr>)
          example_db (Some (example_body (JStr ''CAR-001'') 2 200 400))) =
     success_response 1 ''ORD-20240101-I'' ''PAY-1704101400000-I''"
proof -
  let ?e = "example_env\<lparr>order_random36 := ''0.i'', pay_random36 := ''0.i''\<rparr>"
  have ids: "gen_order_id ?e = ''ORD-20240101-I''"
    "gen_payment_reference ?e = ''PAY-1704101400000-I''"
    by (simp_all add: example_env_def gen_order_id_def gen_payment_reference_def toUpperCase_def
        upper_char_def substr_def slice0_def remove_dashes_def decimal.simps)
  have se: "store_error ?e site = None" for site
    by (simp add: example_env_def)
  have se0: "store_error example_env site = None" for site
    by (simp add: example_env_def)
  have "fst (POST_booking_create ?e example_db (Some (example_body (JStr ''CAR-001'') 2 200 400))) =
     success_response 1 ''ORD-20240101-I'' ''PAY-1704101400000-I''"
    by (simp add: POST_booking_create_def example_destructure missing_required_def
        example_resolve_user [OF se se se] example_select_car [OF se] ids insert_booking_def
        insert_payment_def se0 Let_def)
      (simp add: example_db_def fresh_id_def)
  with ids show ?thesis by simp
qed


section \<open>Properties of the webhook handler\<close>

subsection \<open>Signature check\<close>

text \<open>
  C3, as amended. A webhook request with no \<open>x-paystack-signature\<close> header, or an empty
  one, is answered 400 with \<open>No signature provided\<close>; one whose header is present, not
  empty and different from the hex HMAC-SHA512 of the raw body under the secret key is
  answered 401 with \<open>Invalid signature\<close>. In both cases the store is what it was: the event is
  not processed.
\<close>

theorem webhook_rejects_bad_signature:
  "((x_paystack_signature request = None \<or> x_paystack_signature request = Some []) \<longrightarrow>
      POST_paystack_webhook we d request =
        (Response 400 (JObj [(''error'', JStr ''No signature provided'')]), d)) \<and>
   (\<forall>signature. x_paystack_signature request = Some signature \<and> signature \<noteq> [] \<and>
      signature \<noteq> hmac_sha512_hex we (PAYSTACK_SECRET_KEY we) (raw_body request) \<longrightarrow>
      POST_paystack_webhook we d request =
        (Response 401 (JObj [(''error'', JStr ''Invalid signature'')]), d))"
  by (auto simp: POST_paystack_webhook_def error_response_def)

text \<open>C3 as it is written fails: without the header the answer is 400, not 401.\<close>

theorem webhook_missing_signature_counterexample:
  "x_paystack_signature \<lparr> raw_body = ''charge'', x_paystack_signature = None \<rparr> = None \<and>
   status (fst (POST_paystack_webhook example_webhook_env example_db
     \<lparr> raw_body = ''charge'', x_paystack_signature = None \<rparr>)) = 400 \<and>
   status (fst (POST_paystack_webhook example_webhook_env example_db
     \<lparr> raw_body = ''charge'', x_paystack_signature = None \<rparr>)) \<noteq> 401"
  by (simp add: POST_paystack_webhook_def)

theorem webhook_rejects_bad_signature_witness:
  "POST_paystack_webhook example_webhook_env example_db
     \<lparr> raw_body = ''charge'', x_paystack_signature = None \<rparr> =
     (Response 400 (JObj [(''error'', JStr ''No signature provided'')]), example_db) \<and>
   ''deadbeef'' \<noteq> hmac_sha512_hex example_webhook_env (PAYSTACK_SECRET_KEY example_webhook_env) ''charge'' \<and>
   POST_paystack_webhook example_webhook_env example_db
     \<lparr> raw_body = ''charge'', x_paystack_signature = Some ''deadbeef'' \<rparr> =
     (Response 401 (JObj [(''error'', JStr ''Invalid signature'')]), example_db)"
  using webhook_rejects_bad_signature [of "\<lparr> raw_body = ''charge'', x_paystack_signature = None \<rparr>"
      example_webhook_env example_db]
    webhook_rejects_bad_signature [of
      "\<lparr> raw_body = ''charge'', x_paystack_signature = Some ''deadbeef'' \<rparr>"
      example_webhook_env example_db]
  by (simp add: example_webhook_env_def)

subsection \<open>Unknown payment reference\<close>

text \<open>
  The session id is read without a type error from metadata in the gateway's format: a
  truthy \<open>sessionId\<close>, or \<open>custom_fields\<close> absent, \<open>null\<close>, or a list without \<open>null\<close> entries.
\<close>

lemma find_sessionId_field_defined:
  "JNull \<notin> set entries \<Longrightarrow> JUndefined \<notin> set entries \<Longrightarrow>
   \<exists>found. find_sessionId_field entries = Some found"
proof (induction entries)
  case Nil
  then show ?case by simp
next
  case (Cons field rest)
  then show ?case by (cases field) auto
qed

lemma extract_sessionId_defined:
  assumes "truthy (opt_chain metadata ''sessionId'') \<or>
           opt_chain metadata ''custom_fields'' = JUndefined \<or>
           opt_chain metadata ''custom_fields'' = JNull \<or>
           (\<exists>entries. opt_chain metadata ''custom_fields'' = JArr entries \<and>
              JNull \<notin> set entries \<and> JUndefined \<notin> set entries)"
  shows "\<exists>sid. extract_sessionId metadata = Some sid"
  using assms find_sessionId_field_defined
  by (fastforce simp: extract_sessionId_def split: jsval.splits option.splits)

text \<open>
  C4, as amended. Take a webhook request with a valid signature whose body parses to an
  event of type \<open>charge.success\<close> with a \<open>data\<close> member that is neither \<open>null\<close> nor absent,
  and from whose metadata the session id can be read without a type error. If the lookup of
  its payment reference returns no Payment row, the handler answers 200 with
  \<open>{received: true}\<close> and the store is what it was.
\<close>

theorem webhook_unknown_reference_acknowledged:
  assumes "x_paystack_signature request = Some signature" and "signature \<noteq> []"
    and "hmac_sha512_hex we (PAYSTACK_SECRET_KEY we) (raw_body request) = signature"
    and "JSON_parse we (raw_body request) = Some event"
    and "get_prop event ''event'' = Some (JStr ''charge.success'')"
    and "get_prop event ''data'' = Some data"
    and "data \<noteq> JNull" and "data \<noteq> JUndefined"
    and "extract_sessionId (opt_chain data ''metadata'') = Some sid"
    and "select_payment we (opt_chain data ''reference'') d = None"
  shows "POST_paystack_webhook we d request = (Response 200 (JObj [(''received'', JBool True)]), d)"
  using assms
  by (simp add: POST_paystack_webhook_def opt_chain_def received_def Let_def)

text \<open>
  C4 as it is written fails: a signed \<open>charge.success\<close> event whose reference matches no
  Payment row and whose metadata has the text \<open>x\<close> for \<open>custom_fields\<close> is answered 500,
  because the call of \<open>find\<close> on a string throws before the lookup.
\<close>

theorem webhook_unknown_reference_counterexample:
  "hmac_sha512_hex example_webhook_env (PAYSTACK_SECRET_KEY example_webhook_env) ''charge-custom''
     = ''c0ffee'' \<and>
   JSON_parse example_webhook_env ''charge-custom'' =
     Some (JObj [(''event'', JStr ''charge.success''),
                 (''data'', JObj [(''reference'', JStr ''PAY-1-UNKNOWN''),
                                  (''metadata'', JObj [(''custom_fields'', JStr ''x'')])])]) \<and>
   payments example_db = [] \<and>
   POST_paystack_webhook example_webhook_env example_db
     \<lparr> raw_body = ''charge-custom'', x_paystack_signature = Some ''c0ffee'' \<rparr> =
     (Response 500 (JObj [(''error'', JStr ''Internal server error'')]), example_db)"
  by (simp add: POST_paystack_webhook_def example_webhook_env_def example_db_def opt_chain_def
      extract_sessionId_def error_response_def Let_def)

theorem webhook_unknown_reference_acknowledged_witness:
  "select_payment example_webhook_env (JStr ''PAY-1-UNKNOWN'') example_db = None \<and>
   extract_sessionId (JObj [(''sessionId'', JStr ''wa-new'')]) = Some (JStr ''wa-new'') \<and>
   POST_paystack_webhook example_webhook_env example_db
     \<lparr> raw_body = ''charge'', x_paystack_signature = Some ''c0ffee'' \<rparr> =
     (Response 200 (JObj [(''received'', JBool True)]), example_db)"
proof -
  let ?data = "JObj [(''reference'', JStr ''PAY-1-UNKNOWN''),
                     (''metadata'', JObj [(''sessionId'', JStr ''wa-new'')])]"
  let ?event = "JObj [(''event'', JStr ''charge.success''), (''data'', ?data)]"
  let ?request = "\<lparr> raw_body = ''charge'', x_paystack_signature = Some ''c0ffee'' \<rparr>"
  have h1: "x_paystack_signature ?request = Some ''c0ffee''" by simp
  have h2: "''c0ffee'' \<noteq> []" by simp
  have h3: "hmac_sha512_hex example_webhook_env (PAYSTACK_SECRET_KEY example_webhook_env)
              (raw_body ?request) = ''c0ffee''"
    by (simp add: example_webhook_env_def)
  have h4: "JSON_parse example_webhook_env (raw_body ?request) = Some ?event"
    by (simp add: example_webhook_env_def)
  have h5: "get_prop ?event ''event'' = Some (JStr ''charge.success'')" by simp
  have h6: "get_prop ?event ''data'' = Some ?data" by simp
  have h7: "?data \<noteq> JNull" "?data \<noteq> JUndefined" by simp_all
  have h8: "extract_sessionId (opt_chain ?data ''metadata'') = Some (JStr ''wa-new'')"
    by (simp add: extract_sessionId_def opt_chain_def)
  have h9: "select_payment example_webhook_env (opt_chain ?data ''reference'') example_db = None"
    by (simp add: select_payment_def example_webhook_env_def example_db_def opt_chain_def
        single_def)
  from webhook_unknown_reference_acknowledged [OF h1 h2 h3 h4 h5 h6 h7 h8 h9] h8 h9
  show ?thesis by (simp add: opt_chain_def)
qed

subsection \<open>Other events\<close>

text \<open>
  C10. For every webhook request that passes the signature check and whose body parses to
  an event with a type other than \<open>charge.success\<close>, the handler answers 200 with
  \<open>{received: true}\<close> and returns the store it was given: no Payment, Booking or Session row
  is written, whatever the environment.
\<close>

theorem webhook_other_event_no_mutation:
  assumes "x_paystack_signature request = Some signature" and "signature \<noteq> []"
    and "hmac_sha512_hex we (PAYSTACK_SECRET_KEY we) (raw_body request) = signature"
    and "JSON_parse we (raw_body request) = Some event"
    and "get_prop event ''event'' = Some event_type"
    and "event_type \<noteq> JStr ''charge.success''"
  shows "POST_paystack_webhook we d request = (Response 200 (JObj [(''received'', JBool True)]), d)"
  using assms
  by (simp add: POST_paystack_webhook_def received_def)

theorem webhook_other_event_no_mutation_witness:
  "get_prop (JObj [(''event'', JStr ''refund.processed'')]) ''event'' = Some (JStr ''refund.processed'') \<and>
   JStr ''refund.processed'' \<noteq> JStr ''charge.success'' \<and>
   POST_paystack_webhook example_webhook_env example_db
     \<lparr> raw_body = ''refund'', x_paystack_signature = Some ''c0ffee'' \<rparr> =
     (Response 200 (JObj [(''received'', JBool True)]), example_db)"
proof -
  let ?event = "JObj [(''event'', JStr ''refund.processed'')]"
  let ?request = "\<lparr> raw_body = ''refund'', x_paystack_signature = Some ''c0ffee'' \<rparr>"
  have h1: "x_paystack_signature ?request = Some ''c0ffee''" by simp
  have h2: "''c0ffee'' \<noteq> []" by simp
  have h3: "hmac_sha512_hex example_webhook_env (PAYSTACK_SECRET_KEY example_webhook_env)
              (raw_body ?request) = ''c0ffee''"
    by (simp add: example_webhook_env_def)
  have h4: "JSON_parse example_webhook_env (raw_body ?request) = Some ?event"
    by (simp add: example_webhook_env_def)
  have h5: "get_prop ?event ''event'' = Some (JStr ''refund.processed'')" by simp
  have h6: "JStr ''refund.processed'' \<noteq> JStr ''charge.success''" by simp
  from webhook_other_event_no_mutation [OF h1 h2 h3 h4 h5 h6] h5 h6
  show ?thesis by simp
qed

section \<open>Properties of the booking wizard\<close>

subsection \<open>Rounding to a double\<close>

declare bit_length.simps [simp del]





lemma round_half_even_nearest: "\<bar>of_int (round_half_even y) - y\<bar> \<le> 1 / 2"
proof -
  define f where "f = \<lfloor>y\<rfloor>"
  have b: "of_int f \<le> y" "y < of_int f + 1" unfolding f_def by linarith+
  consider "y - of_int f < 1 / 2" | "1 / 2 < y - of_int f" | "y - of_int f = 1 / 2" by linarith
  then show ?thesis
  proof cases
    case 1
    then have "round_half_even y = f" by (simp add: round_half_even_def f_def)
    with 1 b show ?thesis by simp
  next
    case 2
    then have "round_half_even y = f + 1" by (simp add: round_half_even_def f_def)
    with 2 b show ?thesis by simp
  next
    case 3
    then have "round_half_even y = f \<or> round_half_even y = f + 1"
      by (simp add: round_half_even_def f_def Let_def)
    with 3 b show ?thesis by auto
  qed
qed




text \<open>
  What the rounding gives is on the grid of the doubles around \<open>x\<close> and at most half a
  step of that grid from \<open>x\<close>.
\<close>

lemma round_double_nearest:
  assumes "x \<noteq> 0" and "round_double x = Num r"
  shows "\<bar>r - x\<bar> \<le> 2 powi (max (floor_log2 \<bar>x\<bar>) (- 1022) - 53) \<and>
         (\<exists>m. r = of_int m * 2 powi (max (floor_log2 \<bar>x\<bar>) (- 1022) - 52))"
proof -
  define a where "a = \<bar>x\<bar>"
  define q where "q = max (floor_log2 a) (- 1022) - 52"
  define m where "m = round_half_even (a / 2 powi q)"
  have r: "r = sgn x * (of_int m * 2 powi q)"
    using assms
    by (simp add: round_double_def Let_def a_def [symmetric] q_def [symmetric] m_def [symmetric]
        split: if_splits)
  have p: "(0::rat) < 2 powi q" by simp
  have "\<bar>of_int m * 2 powi q - a\<bar> = \<bar>of_int m - a / 2 powi q\<bar> * 2 powi q"
  proof -
    have "of_int m * 2 powi q - a = (of_int m - a / 2 powi q) * 2 powi q"
      by (simp add: field_simps)
    then show ?thesis by (simp add: abs_mult)
  qed
  also have "\<dots> \<le> 1 / 2 * 2 powi q"
    unfolding m_def using p by (intro mult_right_mono round_half_even_nearest) simp
  also have "\<dots> = 2 powi (q - 1)"
    by (simp add: power_int_diff)
  finally have near: "\<bar>of_int m * 2 powi q - a\<bar> \<le> 2 powi (q - 1)" .
  have "x = sgn x * a"
    by (simp add: a_def mult_sgn_abs)
  then have "r - x = sgn x * (of_int m * 2 powi q) - sgn x * a"
    by (simp add: r)
  then have "r - x = sgn x * (of_int m * 2 powi q - a)"
    by (simp only: right_diff_distrib)
  then have "\<bar>r - x\<bar> = \<bar>of_int m * 2 powi q - a\<bar>"
    using assms(1) by (simp add: abs_mult abs_sgn_eq)
  with near have "\<bar>r - x\<bar> \<le> 2 powi (q - 1)" by simp
  moreover have "q - 1 = max (floor_log2 \<bar>x\<bar>) (- 1022) - 53"
    by (simp add: q_def a_def)
  moreover have "r = of_int (if 0 < x then m else - m) * 2 powi q"
    using assms(1) by (simp add: r sgn_if)
  ultimately show ?thesis
    unfolding q_def a_def by (metis (no_types))
qed

lemma floor_rat_numeral [simp]: "\<lfloor>numeral a / numeral b :: rat\<rfloor> = numeral a div numeral b"
  by (metis floor_divide_of_int_eq of_int_numeral)

lemma ceiling_rat_numeral [simp]:
  "\<lceil>numeral a / numeral b :: rat\<rceil> = - (- numeral a div numeral b)"
  using ceiling_divide_eq_div [of "numeral a" "numeral b", where ?'a = rat] by simp

text \<open>
  Two roundings worked out: the double written \<open>50.05\<close>, and three times it, which is the
  double written \<open>150.14999999999998\<close> and not the one written \<open>150.15\<close>.
\<close>

lemma round_double_50_05: "round_double (1001 / 20) = Num (3521955646092083 / 2 ^ 46)"
proof -
  have e: "floor_log2 (1001 / 20) = 5"
    by (simp add: floor_log2_def bit_length.simps)
  show ?thesis
    by (simp only: round_double_def Let_def)
      (simp add: e, simp add: power_int_minus round_half_even_def Let_def)
qed

lemma three_times_50_05:
  "js_times (Num 3) (Num (3521955646092083 / 2 ^ 46)) = Num (1320733367284531 / 2 ^ 43)"
  "round_double (3 * (1001 / 20)) = Num (5282933469138125 / 2 ^ 45)"
proof -
  have e: "floor_log2 (3 * (3521955646092083 / 2 ^ 46)) = 7"
    by (simp add: floor_log2_def bit_length.simps)
  have "round_double (3 * (3521955646092083 / 2 ^ 46)) = Num (1320733367284531 / 2 ^ 43)"
    by (simp only: round_double_def Let_def)
      (simp add: e [simplified], simp add: power_int_minus round_half_even_def Let_def)
  then show "js_times (Num 3) (Num (3521955646092083 / 2 ^ 46)) = Num (1320733367284531 / 2 ^ 43)"
    by (simp only: js_times_def prod.case number.case)
  have e': "floor_log2 (3 * (1001 / 20)) = 7"
    by (simp add: floor_log2_def bit_length.simps)
  show "round_double (3 * (1001 / 20)) = Num (5282933469138125 / 2 ^ 45)"
    by (simp only: round_double_def Let_def)
      (simp add: e' [simplified], simp add: power_int_minus round_half_even_def Let_def)
qed

subsection \<open>Day count and total\<close>


text \<open>The gate of the first step gives the hypotheses below: both dates chosen and valid.\<close>

lemma canProceedToStep2_dates:
  assumes "canProceedToStep2 getTime bookingData"
  obtains pickup returnDate where
    "bd_pickupDate bookingData \<noteq> []" "bd_returnDate bookingData \<noteq> []"
    "getTime (bd_pickupDate bookingData) = Some pickup"
    "getTime (bd_returnDate bookingData) = Some returnDate"
    "pickup < returnDate"
  using assms by (auto simp: canProceedToStep2_def split: option.splits)






end
